theory Spec2Isabelle
  imports Complex_Main "HOL-Library.AList" "HOL-Library.Monad_Syntax"
begin

section \<open>The supply-chain environment wrapper\<close>

text \<open>
  A shallow embedding of \<^verbatim>\<open>SCEnvWrapper\<close>
  (\<^verbatim>\<open>examples/hello_world/supply_chain/env_wrapper.py\<close>).

  Conventions of the model:
  \<^item> Python numbers (ints, floats, numpy scalars) are real numbers: rounding and overflow
    are not modelled.
  \<^item> A Python dict keyed by ids is an association list in insertion order; a key is
    looked up with \<open>map_of\<close> and stored with \<open>AList.update\<close>, which replaces the value
    of a key in place and appends a new key, as dict assignment does.
  \<^item> A call that raises (KeyError, IndexError, TypeError, AttributeError,
    ZeroDivisionError, ValueError) returns \<open>None\<close>; a call that returns \<open>v\<close> returns
    \<open>Some v\<close>.
\<close>

type_synonym 'v dict = "(nat \<times> 'v) list"

subsection \<open>Data of the simulation engine\<close>

text \<open>The SKU objects of the summary: \<^verbatim>\<open>sku.id\<close> is the field \<open>sku_id\<close>.\<close>

record sku_info =
  sku_id :: nat
  price :: real
  cost :: real
  service_level :: real
  sale_gamma :: real
  vlt :: real

text \<open>
  \<^verbatim>\<open>UnitBaseInfo\<close>. Its \<^verbatim>\<open>__getitem__\<close> reads the unit summary and yields
  \<^verbatim>\<open>None\<close> for an absent key; the summary and the config hold numbers here.
\<close>

record unit_base_info =
  unit_id :: nat
  node_index :: nat
  config :: "(string \<times> real) list"
  summary :: "(string \<times> real) list"

definition getitem :: "unit_base_info \<Rightarrow> string \<Rightarrow> real option" where
  "getitem u key = (if key \<in> fst ` set (summary u) then map_of (summary u) key else None)"

text \<open>
  One entry \<^verbatim>\<open>facility_levels[facility_id][product_id]\<close>: the key
  \<^verbatim>\<open>"skuproduct"\<close> is always there, the other three only when the sub-unit exists.
\<close>

record product_info =
  skuproduct :: unit_base_info
  seller :: "unit_base_info option"
  consumer :: "unit_base_info option"
  manufacture :: "unit_base_info option"

text \<open>
  One entry \<^verbatim>\<open>facility_levels[facility_id]\<close>. The source keeps the string keys and
  the product ids in one dict; the model keeps the product ids in \<open>products\<close>.
\<close>

record facility_level =
  fl_node_index :: nat
  fl_config :: "(string \<times> real) list"
  upstreams :: "nat list dict"
  skus :: "sku_info dict"
  storage :: "unit_base_info option"
  distribution :: "unit_base_info option"
  products :: "product_info dict"

text \<open>
  \<^verbatim>\<open>AgentInfo\<close>: the fields \<^verbatim>\<open>id\<close>, \<^verbatim>\<open>facility_id\<close>, \<^verbatim>\<open>agent_type\<close>,
  \<^verbatim>\<open>is_facility\<close> and \<^verbatim>\<open>sku\<close> (\<^verbatim>\<open>None\<close> for a facility agent).
\<close>

record agent_info =
  a_id :: nat
  a_facility_id :: nat
  a_agent_type :: nat
  a_is_facility :: bool
  a_sku :: "sku_info option"

record facility_metrics =
  f_total_balance_sheet :: real
  in_transit_orders :: "real dict"
  pending_order :: "real dict option"

record product_metrics =
  p_total_balance_sheet :: real
  sale_mean :: real
  sale_std :: real
  pending_order_daily :: "real list"

record metrics =
  max_sources_per_facility :: nat
  max_price :: real
  step_rewards :: "real dict"
  step_balance_sheet :: "real dict"
  m_facilities :: "facility_metrics dict"
  m_products :: "product_metrics dict"

record settings =
  global_reward_weight_consumer :: real
  constraint_state_hist_len :: nat
  sale_hist_len :: nat
  consumption_hist_len :: nat
  pending_order_len :: nat

text \<open>
  The simulation actions of \<^verbatim>\<open>maro.simulator.scenarios.supply_chain.actions\<close>, with
  the arguments in the order the wrapper passes them.
\<close>

datatype env_action =
  ConsumerAction nat nat nat real nat
| ManufactureAction nat real

text \<open>One entry of \<^verbatim>\<open>state_info\<close>: the keys \<^verbatim>\<open>"product_id"\<close> and \<^verbatim>\<open>"source_id"\<close>.\<close>

record state_info_entry =
  si_product_id :: nat
  si_source_id :: nat

subsection \<open>The wrapper object\<close>

text \<open>
  The fields of \<^verbatim>\<open>self\<close> and of \<^verbatim>\<open>self.env\<close>. The snapshot store is external: each
  query of the source is a function field that returns the flattened buffer of that query
  (after \<^verbatim>\<open>astype(np.int)\<close> where the source converts). The attribute
  \<^verbatim>\<open>state_info\<close> is read by \<^verbatim>\<open>get_action\<close>, and no line of the class assigns
  it: on a wrapper as the class builds it the attribute is absent (\<open>None\<close>) and reading
  it raises AttributeError. \<open>Some table\<close> stands for a wrapper on which a caller has
  assigned the attribute from outside.
\<close>

record wrapper =
  env_tick :: int
  env_metrics :: metrics
  env_settings :: settings
  agent_types :: "string list"
  summary_skus :: "sku_info dict"
  agent_list :: "agent_info list"
  storage_product_list :: "int \<Rightarrow> nat \<Rightarrow> nat list"
  storage_product_number :: "int \<Rightarrow> nat \<Rightarrow> int list"
  consumer_latest_consumptions :: "int list \<Rightarrow> nat \<Rightarrow> real list"
  seller_total_demand :: "int \<Rightarrow> nat \<Rightarrow> int list"
  seller_sold_demand :: "int list \<Rightarrow> nat \<Rightarrow> int list"
  distribution_remaining_order :: "int \<Rightarrow> nat \<Rightarrow> int list"
  cur_metrics :: metrics
  cur_facility_storage_products :: "int dict"
  cur_facility_storage_product_mapping :: "nat dict"
  w_max_sources_per_facility :: nat
  facility_levels :: "facility_level dict"
  unit_2_facility_dict :: "nat dict"
  state_info :: "state_info_entry dict option"

text \<open>\<^verbatim>\<open>self._sku_number = len(self._summary["skus"]) + 1\<close>, fixed at construction.\<close>

definition sku_number :: "wrapper \<Rightarrow> nat" where
  "sku_number w = length (summary_skus w) + 1"

text \<open>The two role-keyed dicts \<^verbatim>\<open>{"consumer": ..., "producer": ...}\<close>.\<close>

record 'a by_role =
  consumer_role :: 'a
  producer_role :: 'a

subsection \<open>\<^verbatim>\<open>get_action\<close>\<close>

text \<open>
  The loop over \<^verbatim>\<open>action_by_agent.items()\<close>. Each iteration reads
  \<^verbatim>\<open>self.state_info\<close> first, so an absent attribute raises at the first item; the
  loop has no other check of the agent id.
\<close>

fun get_action_loop ::
  "state_info_entry dict option \<Rightarrow> (nat \<times> real) list \<Rightarrow> env_action dict
     \<Rightarrow> env_action dict option" where
  "get_action_loop si [] env_action = Some env_action"
| "get_action_loop si ((agent_id, action) # rest) env_action =
     (case si of
        None \<Rightarrow> None
      | Some table \<Rightarrow>
          (case map_of table agent_id of
             Some e \<Rightarrow>
               get_action_loop si rest
                 (AList.update agent_id
                    (ConsumerAction agent_id (si_product_id e) (si_source_id e) action 1)
                    env_action)
           | None \<Rightarrow>
               get_action_loop si rest
                 (AList.update agent_id (ManufactureAction agent_id action) env_action)))"

definition get_action :: "wrapper \<Rightarrow> (nat \<times> real) list \<Rightarrow> env_action dict option" where
  "get_action w action_by_agent = get_action_loop (state_info w) action_by_agent []"

subsection \<open>\<^verbatim>\<open>get_reward\<close>\<close>

fun parent_facility_balance_loop ::
  "nat dict \<Rightarrow> real dict \<Rightarrow> (nat \<times> real) list \<Rightarrow> real dict \<Rightarrow> real dict option" where
  "parent_facility_balance_loop u2f sbs [] parent = Some parent"
| "parent_facility_balance_loop u2f sbs ((f_id, sheet) # rest) parent =
     (case map_of u2f f_id of
        Some fac \<Rightarrow>
          (case map_of sbs fac of
             None \<Rightarrow> None
           | Some b \<Rightarrow> parent_facility_balance_loop u2f sbs rest (AList.update f_id b parent))
      | None \<Rightarrow> parent_facility_balance_loop u2f sbs rest (AList.update f_id sheet parent))"

fun consumer_reward_loop ::
  "real \<Rightarrow> real dict \<Rightarrow> (nat \<times> real) list \<Rightarrow> real dict \<Rightarrow> real dict option" where
  "consumer_reward_loop wc parent [] acc = Some acc"
| "consumer_reward_loop wc parent ((f_id, reward) # rest) acc =
     (case map_of parent f_id of
        None \<Rightarrow> None
      | Some p \<Rightarrow>
          consumer_reward_loop wc parent rest
            (AList.update f_id (wc * p + (1 - wc) * reward) acc))"

fun copy_loop :: "(nat \<times> real) list \<Rightarrow> real dict \<Rightarrow> real dict" where
  "copy_loop [] acc = acc"
| "copy_loop ((f_id, reward) # rest) acc = copy_loop rest (AList.update f_id reward acc)"

definition get_reward :: "wrapper \<Rightarrow> int option \<Rightarrow> real dict by_role option" where
  "get_reward w tick =
     (let sbs = step_balance_sheet (cur_metrics w);
          wc = global_reward_weight_consumer (env_settings w)
      in do {
        parent_facility_balance \<leftarrow>
          parent_facility_balance_loop (unit_2_facility_dict w) sbs sbs [];
        consumer_reward_by_facility \<leftarrow>
          consumer_reward_loop wc parent_facility_balance sbs [];
        Some \<lparr>consumer_role = copy_loop consumer_reward_by_facility [],
              producer_role = copy_loop sbs []\<rparr>
      })"

subsection \<open>The raw state record\<close>

text \<open>
  The per-agent state is a dict whose keys are string literals of the source, never
  computed strings. The model has one constructor per key: \<open>K_vlt\<close> is the key
  \<^verbatim>\<open>'vlt'\<close>, and so on, in the order in which \<^verbatim>\<open>_state\<close> and
  \<^verbatim>\<open>_add_global_features\<close> first store them.
\<close>

datatype state_key =
  K_facility_type
| K_facility
| K_is_accepted
| K_constraint_idx
| K_stock_constraint
| K_is_replenish_constraint
| K_low_profit
| K_low_stock_constraint
| K_out_of_stock
| K_facility_id
| K_facility_info
| K_sku_info
| K_is_positive_balance
| K_echelon_level
| K_storage_levels
| K_storage_capacity
| K_storage_utilization
| K_bom_inputs
| K_bom_outputs
| K_distributor_in_transit_orders
| K_distributor_in_transit_orders_qty
| K_sale_mean
| K_sale_std
| K_sale_gamma
| K_service_level
| K_total_backlog_demand
| K_sale_hist
| K_backlog_demand_hist
| K_consumption_hist
| K_pending_order
| K_vlt
| K_max_vlt
| K_consumer_source_export_mask
| K_consumer_source_inventory
| K_consumer_in_transit_orders
| K_inventory_in_stock
| K_inventory_in_transit
| K_inventory_in_distribution
| K_inventory_estimated
| K_inventory_rop
| K_is_over_stock
| K_is_out_of_stock
| K_is_below_rop
| K_max_price
| K_sku_price
| K_sku_cost
| K_global_time

text \<open>
  A value of the dict is \<^verbatim>\<open>None\<close>, a number, a list of numbers, a config dict or an
  SKU object.
\<close>

datatype val =
  VNone
| VNum real
| VList "real list"
| VDict "(string \<times> real) list"
| VSku sku_info

type_synonym raw_state = "state_key \<rightharpoonup> val"

text \<open>\<^verbatim>\<open>state[key]\<close> used as a number: KeyError or TypeError otherwise.\<close>

definition num_of :: "raw_state \<Rightarrow> state_key \<Rightarrow> real option" where
  "num_of st key = (case st key of Some (VNum x) \<Rightarrow> Some x | _ \<Rightarrow> None)"

text \<open>\<^verbatim>\<open>xs[i]\<close> and \<^verbatim>\<open>xs[i] = v\<close> for an index \<open>i \<ge> 0\<close>: IndexError out of range.\<close>

definition get_item :: "'a list \<Rightarrow> nat \<Rightarrow> 'a option" where
  "get_item xs i = (if i < length xs then Some (xs ! i) else None)"

definition set_item :: "'a list \<Rightarrow> nat \<Rightarrow> 'a \<Rightarrow> 'a list option" where
  "set_item xs i v = (if i < length xs then Some (xs[i := v]) else None)"

text \<open>\<^verbatim>\<open>[self.env.tick - i for i in range(n)]\<close>\<close>

definition tick_window :: "wrapper \<Rightarrow> nat \<Rightarrow> int list" where
  "tick_window w n = map (\<lambda>i. env_tick w - int i) [0..<n]"

subsection \<open>The feature extractors\<close>

text \<open>
  Each extractor takes the state dict and returns it updated. Where the source fills a
  list inside the state in place, the model builds the list first and stores it
  afterwards: an exception discards the state, so the result is the same.
\<close>

definition atoms_keys :: "state_key list" where
  "atoms_keys = [K_stock_constraint, K_is_replenish_constraint, K_low_profit,
     K_low_stock_constraint, K_out_of_stock]"

definition add_global_features :: "wrapper \<Rightarrow> raw_state \<Rightarrow> raw_state" where
  "add_global_features w state = state(K_global_time \<mapsto> VNum (of_int (env_tick w)))"

definition add_facility_features :: "wrapper \<Rightarrow> raw_state \<Rightarrow> agent_info \<Rightarrow> raw_state option" where
  "add_facility_features w state agent =
     (let c = constraint_state_hist_len (env_settings w);
          state = state(K_facility_type \<mapsto>
                    VList (map (\<lambda>i. if i = a_agent_type agent then 1 else 0)
                             [0..<length (agent_types w)]));
          state = state(K_facility \<mapsto> VNone);
          state = state(K_is_accepted \<mapsto> VList (replicate c 0));
          state = state(K_constraint_idx \<mapsto> VList [0]);
          state = fold (\<lambda>atom_name st. st(atom_name \<mapsto> VList (replicate c 1))) atoms_keys state;
          facility_id = replicate (sku_number w) 0
      in do {
        fl \<leftarrow> map_of (facility_levels w) (a_facility_id agent);
        state \<leftarrow>
          (if a_is_facility agent then do {
             fm \<leftarrow> map_of (m_facilities (cur_metrics w)) (a_facility_id agent);
             Some (state(K_facility_id \<mapsto> VList facility_id,
                         K_facility_info \<mapsto> VDict (fl_config fl),
                         K_sku_info \<mapsto> VDict [],
                         K_is_positive_balance \<mapsto>
                           VNum (if f_total_balance_sheet fm > 0 then 1 else 0)))
           } else do {
             pm \<leftarrow> map_of (m_products (cur_metrics w)) (a_id agent);
             s \<leftarrow> a_sku agent;
             facility_id \<leftarrow> set_item facility_id (sku_id s) 1;
             Some (state(K_facility_id \<mapsto> VList facility_id,
                         K_facility_info \<mapsto> VDict (fl_config fl),
                         K_sku_info \<mapsto> VSku s,
                         K_is_positive_balance \<mapsto>
                           VNum (if p_total_balance_sheet pm > 0 then 1 else 0)))
           });
        Some (state(K_echelon_level \<mapsto> VNum 0))
      })"

text \<open>
  The loop of \<^verbatim>\<open>_add_storage_features\<close> over
  \<^verbatim>\<open>self._cur_facility_storage_products.items()\<close>.
\<close>

fun storage_loop :: "(nat \<times> int) list \<Rightarrow> real list \<Rightarrow> real \<Rightarrow> (real list \<times> real) option" where
  "storage_loop [] levels utilization = Some (levels, utilization)"
| "storage_loop ((pid, pnum) # rest) levels utilization =
     (case set_item levels pid (of_int pnum) of
        None \<Rightarrow> None
      | Some levels' \<Rightarrow> storage_loop rest levels' (utilization + of_int pnum))"

definition add_storage_features :: "wrapper \<Rightarrow> raw_state \<Rightarrow> agent_info \<Rightarrow> raw_state option" where
  "add_storage_features w state agent = do {
     fl \<leftarrow> map_of (facility_levels w) (a_facility_id agent);
     st_unit \<leftarrow> storage fl;
     capacity \<leftarrow> map_of (config st_unit) ''capacity'';
     (levels, utilization) \<leftarrow>
       storage_loop (cur_facility_storage_products w) (replicate (sku_number w) 0) 0;
     Some (state(K_storage_levels \<mapsto> VList levels,
                 K_storage_capacity \<mapsto> VNum capacity,
                 K_storage_utilization \<mapsto> VNum utilization))
   }"

definition add_bom_features :: "wrapper \<Rightarrow> raw_state \<Rightarrow> agent_info \<Rightarrow> raw_state option" where
  "add_bom_features w state agent =
     (let bom_inputs = replicate (sku_number w) 0;
          bom_outputs = replicate (sku_number w) 0
      in if \<not> a_is_facility agent then do {
           s \<leftarrow> a_sku agent;
           bom_inputs \<leftarrow> set_item bom_inputs (sku_id s) 1;
           bom_outputs \<leftarrow> set_item bom_outputs (sku_id s) 1;
           Some (state(K_bom_inputs \<mapsto> VList bom_inputs, K_bom_outputs \<mapsto> VList bom_outputs))
         }
         else Some (state(K_bom_inputs \<mapsto> VList bom_inputs,
                          K_bom_outputs \<mapsto> VList bom_outputs)))"

definition add_distributor_features :: "wrapper \<Rightarrow> raw_state \<Rightarrow> agent_info \<Rightarrow> raw_state option" where
  "add_distributor_features w state agent =
     (let state = state(K_distributor_in_transit_orders \<mapsto> VNum 0,
                        K_distributor_in_transit_orders_qty \<mapsto> VNum 0)
      in do {
        fl \<leftarrow> map_of (facility_levels w) (a_facility_id agent);
        (case distribution fl of
           None \<Rightarrow> Some state
         | Some d \<Rightarrow> do {
             let dist_states = distribution_remaining_order w (env_tick w) (unit_id d);
             orders \<leftarrow> get_item dist_states 1;
             qty \<leftarrow> get_item dist_states 0;
             Some (state(K_distributor_in_transit_orders \<mapsto> VNum (of_int orders),
                         K_distributor_in_transit_orders_qty \<mapsto> VNum (of_int qty)))
           })
      })"

text \<open>
  \<^verbatim>\<open>reshape(2, -1)\<close> of a flat buffer: ValueError for an odd length, else the two
  halves as rows.
\<close>

definition reshape2 :: "'a list \<Rightarrow> ('a list \<times> 'a list) option" where
  "reshape2 xs =
     (if odd (length xs) then None
      else Some (take (length xs div 2) xs, drop (length xs div 2) xs))"

definition add_sale_features :: "wrapper \<Rightarrow> raw_state \<Rightarrow> agent_info \<Rightarrow> raw_state option" where
  "add_sale_features w state agent =
     (let hist_len = sale_hist_len (env_settings w);
          chl = consumption_hist_len (env_settings w);
          state = state(K_sale_mean \<mapsto> VNum 1,
                        K_sale_std \<mapsto> VNum 1,
                        K_sale_gamma \<mapsto> VNum 1,
                        K_service_level \<mapsto> VNum 0.95,
                        K_total_backlog_demand \<mapsto> VNum 0,
                        K_sale_hist \<mapsto> VList (replicate hist_len 0),
                        K_backlog_demand_hist \<mapsto> VList (replicate hist_len 0),
                        K_consumption_hist \<mapsto> VList (replicate chl 0),
                        K_pending_order \<mapsto>
                          VList (replicate (pending_order_len (env_settings w)) 0))
      in if a_is_facility agent then Some state
         else do {
           pm \<leftarrow> map_of (m_products (cur_metrics w)) (a_id agent);
           s \<leftarrow> a_sku agent;
           let state = state(K_service_level \<mapsto> VNum (service_level s),
                             K_sale_mean \<mapsto> VNum (sale_mean pm),
                             K_sale_gamma \<mapsto> VNum (sale_mean pm),
                             K_sale_std \<mapsto> VNum (sale_std pm));
           fl \<leftarrow> map_of (facility_levels w) (a_facility_id agent);
           pinfo \<leftarrow> map_of (products fl) (sku_id s);
           let state =
             (case consumer pinfo of
                None \<Rightarrow> state
              | Some c \<Rightarrow>
                  state(K_consumption_hist \<mapsto>
                          VList (consumer_latest_consumptions w (tick_window w chl)
                                   (node_index c)),
                        K_pending_order \<mapsto> VList (pending_order_daily pm)));
           (case seller pinfo of
              None \<Rightarrow> Some state
            | Some sl \<Rightarrow> do {
                let single_states = seller_total_demand w (env_tick w) (node_index sl);
                (sold, demand) \<leftarrow>
                  reshape2 (seller_sold_demand w (tick_window w hist_len) (node_index sl));
                total_demand \<leftarrow> get_item single_states 0;
                sc \<leftarrow> map_of (skus fl) (sku_id s);
                Some (state(K_total_backlog_demand \<mapsto> VNum (of_int total_demand),
                            K_sale_hist \<mapsto> VList (map of_int sold),
                            K_backlog_demand_hist \<mapsto> VList (map of_int demand),
                            K_sale_gamma \<mapsto> VNum (sale_gamma sc)))
              })
         })"

text \<open>
  The two nested loops of \<^verbatim>\<open>_add_vlt_features\<close>. The inner loop runs over
  \<^verbatim>\<open>enumerate(sku_list.values())\<close>, the outer one over
  \<^verbatim>\<open>enumerate(current_source_list)\<close>; \<open>n\<close> is \<^verbatim>\<open>len(sku_list)\<close>, \<open>own\<close> is
  \<^verbatim>\<open>agent_info.sku.id\<close> and \<open>fl\<close> is the agent's own facility.
\<close>

fun vlt_inner ::
  "facility_level \<Rightarrow> nat \<Rightarrow> nat \<Rightarrow> nat \<Rightarrow> (nat \<times> sku_info) list \<Rightarrow> real list \<Rightarrow> real list option" where
  "vlt_inner fl own n i [] v = Some v"
| "vlt_inner fl own n i ((j, s) # rest) v =
     (if sku_id s = own then
        (case map_of (skus fl) (sku_id s) of
           None \<Rightarrow> None
         | Some sc \<Rightarrow>
             (case set_item v (i * n + j + 1) (vlt sc) of
                None \<Rightarrow> None
              | Some v' \<Rightarrow> vlt_inner fl own n i rest v'))
      else vlt_inner fl own n i rest v)"

fun vlt_outer ::
  "facility_level \<Rightarrow> nat \<Rightarrow> sku_info list \<Rightarrow> (nat \<times> nat) list \<Rightarrow> real list \<Rightarrow> real list option" where
  "vlt_outer fl own sku_list [] v = Some v"
| "vlt_outer fl own sku_list ((i, source) # rest) v =
     (case vlt_inner fl own (length sku_list) i (enumerate 0 sku_list) v of
        None \<Rightarrow> None
      | Some v' \<Rightarrow> vlt_outer fl own sku_list rest v')"

text \<open>
  \<^verbatim>\<open>product_info["skuproduct"]["max_vlt"]\<close> is \<^verbatim>\<open>None\<close> when the unit summary has
  no such key; the state then holds \<open>VNone\<close>.
\<close>

definition add_vlt_features :: "wrapper \<Rightarrow> raw_state \<Rightarrow> agent_info \<Rightarrow> raw_state option" where
  "add_vlt_features w state agent = do {
     let sku_list = map snd (summary_skus w);
     fl \<leftarrow> map_of (facility_levels w) (a_facility_id agent);
     let current_source_list =
       (case a_sku agent of
          None \<Rightarrow> []
        | Some s \<Rightarrow> (case map_of (upstreams fl) (sku_id s) of None \<Rightarrow> [] | Some l \<Rightarrow> l));
     let v = replicate (w_max_sources_per_facility w * sku_number w) 0;
     let state = state(K_vlt \<mapsto> VList v, K_max_vlt \<mapsto> VNum 0);
     if \<not> a_is_facility agent then do {
       s \<leftarrow> a_sku agent;
       pinfo \<leftarrow> map_of (products fl) (sku_id s);
       if consumer pinfo \<noteq> None \<and> length current_source_list > 0 then do {
         let max_vlt = (case getitem (skuproduct pinfo) ''max_vlt'' of
                          None \<Rightarrow> VNone | Some x \<Rightarrow> VNum x);
         v \<leftarrow> vlt_outer fl (sku_id s) sku_list (enumerate 0 current_source_list) v;
         Some (state(K_max_vlt \<mapsto> max_vlt, K_vlt \<mapsto> VList v))
       }
       else Some state
     }
     else Some state
   }"

text \<open>
  The loops of \<^verbatim>\<open>_add_consumer_features\<close>: the export mask, whose value is read from
  the source facility, and the in-transit orders.
\<close>

fun mask_inner ::
  "wrapper \<Rightarrow> nat \<Rightarrow> nat \<Rightarrow> nat \<Rightarrow> nat \<Rightarrow> (nat \<times> sku_info) list \<Rightarrow> real list \<Rightarrow> real list option" where
  "mask_inner w own n i source [] m = Some m"
| "mask_inner w own n i source ((j, s) # rest) m =
     (if sku_id s = own then
        (case map_of (facility_levels w) source of
           None \<Rightarrow> None
         | Some sfl \<Rightarrow>
             (case map_of (skus sfl) (sku_id s) of
                None \<Rightarrow> None
              | Some sc \<Rightarrow>
                  (case set_item m (i * n + j + 1) (vlt sc) of
                     None \<Rightarrow> None
                   | Some m' \<Rightarrow> mask_inner w own n i source rest m')))
      else mask_inner w own n i source rest m)"

fun mask_outer ::
  "wrapper \<Rightarrow> nat \<Rightarrow> sku_info list \<Rightarrow> (nat \<times> nat) list \<Rightarrow> real list \<Rightarrow> real list option" where
  "mask_outer w own sku_list [] m = Some m"
| "mask_outer w own sku_list ((i, source) # rest) m =
     (case mask_inner w own (length sku_list) i source (enumerate 0 sku_list) m of
        None \<Rightarrow> None
      | Some m' \<Rightarrow> mask_outer w own sku_list rest m')"

fun in_transit_loop :: "real dict \<Rightarrow> sku_info list \<Rightarrow> real list \<Rightarrow> real list option" where
  "in_transit_loop ito [] acc = Some acc"
| "in_transit_loop ito (s # rest) acc =
     (case get_item acc (sku_id s) of
        None \<Rightarrow> None
      | Some old \<Rightarrow>
          (case map_of ito (sku_id s) of
             None \<Rightarrow> None
           | Some q \<Rightarrow> in_transit_loop ito rest (acc[sku_id s := old + q])))"

text \<open>
  \<^verbatim>\<open>np.sqrt\<close> of a negative number is NaN, and \<^verbatim>\<open>scipy.stats.norm.ppf\<close> is finite
  only strictly between 0 and 1: outside, the reorder point is not a real number and the
  model stops with \<open>None\<close>. The quantile function itself belongs to scipy and is the
  parameter \<open>ppf\<close>.
\<close>

definition inventory_rop_of :: "(real \<Rightarrow> real) \<Rightarrow> real \<Rightarrow> real \<Rightarrow> real \<Rightarrow> real \<Rightarrow> real option" where
  "inventory_rop_of ppf max_vlt mean std level =
     (if max_vlt < 0 \<or> level \<le> 0 \<or> 1 \<le> level then None
      else Some (max_vlt * mean + sqrt max_vlt * std * ppf level))"

definition add_consumer_features ::
  "(real \<Rightarrow> real) \<Rightarrow> wrapper \<Rightarrow> raw_state \<Rightarrow> agent_info \<Rightarrow> raw_state option" where
  "add_consumer_features ppf w state agent =
     (let state = state(K_consumer_source_export_mask \<mapsto>
                          VList (replicate (w_max_sources_per_facility w * sku_number w) 0),
                        K_consumer_source_inventory \<mapsto> VList (replicate (sku_number w) 0),
                        K_consumer_in_transit_orders \<mapsto> VList (replicate (sku_number w) 0),
                        K_inventory_in_stock \<mapsto> VNum 0,
                        K_inventory_in_transit \<mapsto> VNum 0,
                        K_inventory_in_distribution \<mapsto> VNum 0,
                        K_inventory_estimated \<mapsto> VNum 0,
                        K_inventory_rop \<mapsto> VNum 0,
                        K_is_over_stock \<mapsto> VNum 0,
                        K_is_out_of_stock \<mapsto> VNum 0,
                        K_is_below_rop \<mapsto> VNum 0)
      in if a_is_facility agent then Some state
         else do {
           fl \<leftarrow> map_of (facility_levels w) (a_facility_id agent);
           s \<leftarrow> a_sku agent;
           pinfo \<leftarrow> map_of (products fl) (sku_id s);
           if consumer pinfo = None then Some state
           else do {
             let source_list =
               (case map_of (upstreams fl) (sku_id s) of None \<Rightarrow> [] | Some l \<Rightarrow> l);
             if length source_list = 0 then Some state
             else do {
               let sku_list = map snd (summary_skus w);
               mask \<leftarrow>
                 mask_outer w (sku_id s) sku_list (enumerate 0 source_list)
                   (replicate (w_max_sources_per_facility w * sku_number w) 0);
               fm \<leftarrow> map_of (m_facilities (cur_metrics w)) (a_facility_id agent);
               in_transit \<leftarrow>
                 in_transit_loop (in_transit_orders fm) sku_list (replicate (sku_number w) 0);
               stock \<leftarrow> map_of (cur_facility_storage_products w) (sku_id s);
               let inventory_in_stock = of_int stock;
               inventory_in_transit \<leftarrow> get_item in_transit (sku_id s);
               inventory_in_distribution \<leftarrow>
                 (case pending_order fm of
                    None \<Rightarrow> Some 0
                  | Some po \<Rightarrow> map_of po (sku_id s));
               let inventory_estimated =
                 inventory_in_stock + inventory_in_transit - inventory_in_distribution;
               storage_capacity \<leftarrow> num_of state K_storage_capacity;
               let is_over_stock =
                 (if inventory_estimated \<ge> 0.5 * storage_capacity then 1 else 0);
               let is_out_of_stock = (if inventory_estimated \<le> 0 then 1 else 0);
               max_vlt \<leftarrow> num_of state K_max_vlt;
               mean \<leftarrow> num_of state K_sale_mean;
               std \<leftarrow> num_of state K_sale_std;
               level \<leftarrow> num_of state K_service_level;
               inventory_rop \<leftarrow> inventory_rop_of ppf max_vlt mean std level;
               let is_below_rop = (if inventory_estimated < inventory_rop then 1 else 0);
               Some (state(K_consumer_source_export_mask \<mapsto> VList mask,
                           K_consumer_in_transit_orders \<mapsto> VList in_transit,
                           K_inventory_in_stock \<mapsto> VNum inventory_in_stock,
                           K_inventory_in_transit \<mapsto> VNum inventory_in_transit,
                           K_inventory_in_distribution \<mapsto> VNum inventory_in_distribution,
                           K_inventory_estimated \<mapsto> VNum inventory_estimated,
                           K_is_over_stock \<mapsto> VNum is_over_stock,
                           K_is_out_of_stock \<mapsto> VNum is_out_of_stock,
                           K_inventory_rop \<mapsto> VNum inventory_rop,
                           K_is_below_rop \<mapsto> VNum is_below_rop))
             }
           }
         })"

definition add_price_features :: "wrapper \<Rightarrow> raw_state \<Rightarrow> agent_info \<Rightarrow> raw_state option" where
  "add_price_features w state agent =
     (let state = state(K_max_price \<mapsto> VNum (max_price (cur_metrics w)),
                        K_sku_price \<mapsto> VNum 0,
                        K_sku_cost \<mapsto> VNum 0)
      in if \<not> a_is_facility agent then do {
           s \<leftarrow> a_sku agent;
           Some (state(K_sku_price \<mapsto> VNum (price s), K_sku_cost \<mapsto> VNum (cost s)))
         }
         else Some state)"

text \<open>\<^verbatim>\<open>SCEnvWrapper._state\<close>: the eight extractors in their fixed order.\<close>

definition agent_state :: "(real \<Rightarrow> real) \<Rightarrow> wrapper \<Rightarrow> agent_info \<Rightarrow> raw_state option" where
  "agent_state ppf w agent = do {
     state \<leftarrow> add_facility_features w Map.empty agent;
     state \<leftarrow> add_storage_features w state agent;
     state \<leftarrow> add_bom_features w state agent;
     state \<leftarrow> add_distributor_features w state agent;
     state \<leftarrow> add_sale_features w state agent;
     state \<leftarrow> add_vlt_features w state agent;
     state \<leftarrow> add_consumer_features ppf w state agent;
     add_price_features w state agent
   }"

subsection \<open>\<^verbatim>\<open>_serialize_state\<close>\<close>

definition keys_in_state :: "(state_key option \<times> state_key list) list" where
  "keys_in_state =
     [(None, [K_is_over_stock, K_is_out_of_stock, K_is_below_rop,
              K_constraint_idx, K_is_accepted, K_consumption_hist]),
      (Some K_storage_capacity, [K_storage_utilization]),
      (Some K_sale_gamma, [K_sale_std, K_sale_hist, K_pending_order,
                             K_inventory_in_stock, K_inventory_in_transit,
                             K_inventory_estimated, K_inventory_rop]),
      (Some K_max_price, [K_sku_price, K_sku_cost])]"

text \<open>
  \<^verbatim>\<open>if not isinstance(vals, list): vals = [vals]\<close>. The output is an array of
  numbers: a value that is neither a number nor a list of numbers has no place in it.
\<close>

definition as_list :: "val \<Rightarrow> real list option" where
  "as_list v = (case v of VList xs \<Rightarrow> Some xs | VNum x \<Rightarrow> Some [x] | _ \<Rightarrow> None)"

text \<open>
  \<^verbatim>\<open>[max(0.0, min(100.0, x/(agent_raw_state[norm]+0.01))) for x in vals]\<close>: the
  reference is read once per element, and a zero divisor raises.
\<close>

fun normalize_vals :: "raw_state \<Rightarrow> state_key \<Rightarrow> real list \<Rightarrow> real list option" where
  "normalize_vals st nrm [] = Some []"
| "normalize_vals st nrm (x # xs) =
     (case num_of st nrm of
        None \<Rightarrow> None
      | Some r \<Rightarrow>
          if r + 0.01 = 0 then None
          else (case normalize_vals st nrm xs of
                  None \<Rightarrow> None
                | Some rest \<Rightarrow> Some (max 0.0 (min 100.0 (x / (r + 0.01))) # rest)))"

definition serialize_field :: "raw_state \<Rightarrow> state_key option \<Rightarrow> state_key \<Rightarrow> real list option" where
  "serialize_field st nrm field = do {
     v \<leftarrow> st field;
     vals \<leftarrow> as_list v;
     (case nrm of None \<Rightarrow> Some vals | Some n \<Rightarrow> normalize_vals st n vals)
   }"

fun serialize_fields :: "raw_state \<Rightarrow> state_key option \<Rightarrow> state_key list \<Rightarrow> real list option" where
  "serialize_fields st nrm [] = Some []"
| "serialize_fields st nrm (field # rest) =
     (case serialize_field st nrm field of
        None \<Rightarrow> None
      | Some vals \<Rightarrow>
          (case serialize_fields st nrm rest of
             None \<Rightarrow> None
           | Some others \<Rightarrow> Some (vals @ others)))"

fun serialize_groups :: "raw_state \<Rightarrow> (state_key option \<times> state_key list) list \<Rightarrow> real list option" where
  "serialize_groups st [] = Some []"
| "serialize_groups st ((nrm, field_list) # rest) =
     (case serialize_fields st nrm field_list of
        None \<Rightarrow> None
      | Some vals \<Rightarrow>
          (case serialize_groups st rest of
             None \<Rightarrow> None
           | Some others \<Rightarrow> Some (vals @ others)))"

definition serialize_agent :: "raw_state \<Rightarrow> real list option" where
  "serialize_agent st = serialize_groups st keys_in_state"

fun serialize_agents :: "(nat \<times> raw_state) list \<Rightarrow> real list dict \<Rightarrow> real list dict option" where
  "serialize_agents [] acc = Some acc"
| "serialize_agents ((aid, st) # rest) acc =
     (case serialize_agent st of
        None \<Rightarrow> None
      | Some v \<Rightarrow> serialize_agents rest (AList.update aid v acc))"

definition serialize_state :: "raw_state dict by_role \<Rightarrow> real list dict by_role option" where
  "serialize_state state = do {
     c \<leftarrow> serialize_agents (consumer_role state) [];
     p \<leftarrow> serialize_agents (producer_role state) [];
     Some \<lparr>consumer_role = c, producer_role = p\<rparr>
   }"

subsection \<open>\<^verbatim>\<open>_get_state\<close>\<close>

text \<open>A dict comprehension over key/value pairs: a later pair replaces an earlier key.\<close>

definition dict_of :: "(nat \<times> 'v) list \<Rightarrow> 'v dict" where
  "dict_of kvs = fold (\<lambda>(k, v). AList.update k v) kvs []"

fun get_state_loop ::
  "(real \<Rightarrow> real) \<Rightarrow> wrapper \<Rightarrow> agent_info list \<Rightarrow> raw_state dict by_role
     \<Rightarrow> (raw_state dict by_role \<times> wrapper) option" where
  "get_state_loop ppf w [] state = Some (state, w)"
| "get_state_loop ppf w (agent # rest) state =
     (case map_of (facility_levels w) (a_facility_id agent) of
        None \<Rightarrow> None
      | Some fl \<Rightarrow>
          (case storage fl of
             None \<Rightarrow> None
           | Some st_unit \<Rightarrow>
               (let storage_index = node_index st_unit;
                    pl = storage_product_list w (env_tick w) storage_index;
                    pn = storage_product_number w (env_tick w) storage_index;
                    w' = w\<lparr>cur_facility_storage_products := dict_of (zip pl pn),
                           cur_facility_storage_product_mapping :=
                             dict_of (zip pl [0..<length pl])\<rparr>
                in case agent_state ppf w' agent of
                     None \<Rightarrow> None
                   | Some f_state \<Rightarrow>
                       (let f_state = add_global_features w' f_state
                        in get_state_loop ppf w' rest
                             \<lparr>consumer_role =
                                AList.update (a_id agent) f_state (consumer_role state),
                              producer_role =
                                AList.update (a_id agent) f_state (producer_role state)\<rparr>))))"

text \<open>
  \<^verbatim>\<open>_get_state\<close> refreshes the cached metrics, builds one record per agent and
  serializes; it returns the vectors and the updated wrapper. \<^verbatim>\<open>get_state(event)\<close>
  ignores its argument.
\<close>

definition get_state0 ::
  "(real \<Rightarrow> real) \<Rightarrow> wrapper \<Rightarrow> (real list dict by_role \<times> wrapper) option" where
  "get_state0 ppf w = do {
     (state, w') \<leftarrow>
       get_state_loop ppf (w\<lparr>cur_metrics := env_metrics w\<rparr>) (agent_list w)
         \<lparr>consumer_role = [], producer_role = []\<rparr>;
     r \<leftarrow> serialize_state state;
     Some (r, w')
   }"

definition get_state ::
  "(real \<Rightarrow> real) \<Rightarrow> wrapper \<Rightarrow> 'e \<Rightarrow> (real list dict by_role \<times> wrapper) option" where
  "get_state ppf w event = get_state0 ppf w"

subsection \<open>The spec's wording of the reward blend\<close>



subsection \<open>A small world\<close>

text \<open>
  One retailer facility 10 with a storage unit of capacity 100 and two products: SKU 1
  (product unit 12, with a consumer, supplied by the facilities 20 and 30) and SKU 2
  (product unit 15, without a consumer). Its agents are the facility itself and the two
  product units. The wrapper is as the class builds it: \<^verbatim>\<open>state_info\<close> is absent.
\<close>

definition sku1 :: sku_info where
  "sku1 = \<lparr>sku_id = 1, price = 10, cost = 5, service_level = 0.95, sale_gamma = 4, vlt = 3\<rparr>"

definition sku2 :: sku_info where
  "sku2 = \<lparr>sku_id = 2, price = 20, cost = 8, service_level = 0.9, sale_gamma = 3, vlt = 2\<rparr>"

definition unit_of :: "nat \<Rightarrow> (string \<times> real) list \<Rightarrow> (string \<times> real) list \<Rightarrow> unit_base_info" where
  "unit_of i cfg smry = \<lparr>unit_id = i, node_index = 0, config = cfg, summary = smry\<rparr>"

definition retailer :: facility_level where
  "retailer =
     \<lparr>fl_node_index = 0, fl_config = [], upstreams = [(1, [20, 30])],
      skus = [(1, sku1), (2, sku2)],
      storage = Some (unit_of 11 [(''capacity'', 100)] []),
      distribution = None,
      products =
        [(1, \<lparr>skuproduct = unit_of 12 [] [(''max_vlt'', 4)], seller = None,
               consumer = Some (unit_of 13 [] []), manufacture = None\<rparr>),
         (2, \<lparr>skuproduct = unit_of 15 [] [(''max_vlt'', 1)], seller = None,
               consumer = None, manufacture = None\<rparr>)]\<rparr>"

definition supplier :: "real \<Rightarrow> facility_level" where
  "supplier lead =
     \<lparr>fl_node_index = 1, fl_config = [], upstreams = [],
      skus = [(1, sku1\<lparr>vlt := lead\<rparr>)],
      storage = Some (unit_of 21 [(''capacity'', 1000)] []),
      distribution = None, products = []\<rparr>"

definition world_metrics :: metrics where
  "world_metrics =
     \<lparr>max_sources_per_facility = 2, max_price = 20, step_rewards = [],
      step_balance_sheet = [(10, 1000), (12, 200)],
      m_facilities =
        [(10, \<lparr>f_total_balance_sheet = 1000, in_transit_orders = [(1, 6), (2, 0)],
                pending_order = Some [(1, 2), (2, 0)]\<rparr>)],
      m_products =
        [(12, \<lparr>p_total_balance_sheet = 200, sale_mean = 2, sale_std = 1,
                pending_order_daily = [0, 0]\<rparr>),
         (15, \<lparr>p_total_balance_sheet = 0, sale_mean = 1, sale_std = 1,
                pending_order_daily = [0, 0]\<rparr>)]\<rparr>"

definition facility_agent :: agent_info where
  "facility_agent =
     \<lparr>a_id = 10, a_facility_id = 10, a_agent_type = 0, a_is_facility = True, a_sku = None\<rparr>"

definition consumer_agent :: agent_info where
  "consumer_agent =
     \<lparr>a_id = 12, a_facility_id = 10, a_agent_type = 1, a_is_facility = False,
      a_sku = Some sku1\<rparr>"

definition plain_agent :: agent_info where
  "plain_agent =
     \<lparr>a_id = 15, a_facility_id = 10, a_agent_type = 1, a_is_facility = False,
      a_sku = Some sku2\<rparr>"

definition world :: wrapper where
  "world =
     \<lparr>env_tick = 3,
      env_metrics = world_metrics,
      env_settings =
        \<lparr>global_reward_weight_consumer = 0.5, constraint_state_hist_len = 2,
         sale_hist_len = 2, consumption_hist_len = 2, pending_order_len = 2\<rparr>,
      agent_types = [''facility'', ''product''],
      summary_skus = [(1, sku1), (2, sku2)],
      agent_list = [facility_agent, consumer_agent, plain_agent],
      storage_product_list = (\<lambda>t i. [1, 2]),
      storage_product_number = (\<lambda>t i. [60, 5]),
      consumer_latest_consumptions = (\<lambda>ticks i. map (\<lambda>t. 0) ticks),
      seller_total_demand = (\<lambda>t i. [0]),
      seller_sold_demand = (\<lambda>ticks i. map (\<lambda>t. 0) (ticks @ ticks)),
      distribution_remaining_order = (\<lambda>t i. [0, 0]),
      cur_metrics = world_metrics,
      cur_facility_storage_products = [(1, 60), (2, 5)],
      cur_facility_storage_product_mapping = [(1, 0), (2, 1)],
      w_max_sources_per_facility = 2,
      facility_levels = [(10, retailer), (20, supplier 5), (30, supplier 7)],
      unit_2_facility_dict = [(11, 10), (12, 10), (13, 10), (15, 10)],
      state_info = None\<rparr>"



section \<open>Rewards\<close>

lemma update_key_set: "fst ` set (AList.update k v al) = insert k (fst ` set al)"
  using dom_update [of k v al] by (simp add: dom_map_of_conv_image_fst)














text \<open>
  C10. The result of \<open>get_reward\<close> does not depend on its tick argument, absent or not:
  it reads the cached metrics and the configured weight only.
\<close>

theorem get_reward_ignores_tick: "get_reward w t1 = get_reward w t2"
  by (simp add: get_reward_def)

section \<open>Actions\<close>

lemma gal_keep:
  "get_action_loop (Some table) xs acc = Some r \<Longrightarrow> x \<notin> fst ` set xs
   \<Longrightarrow> map_of r x = map_of acc x"
  by (induction xs arbitrary: acc) (auto split: option.splits simp: update_conv')

lemma gal_total: "\<exists>r. get_action_loop (Some table) xs acc = Some r"
  by (induction xs arbitrary: acc) (auto split: option.splits)

lemma gal_entry:
  "get_action_loop (Some table) xs acc = Some r \<Longrightarrow> distinct (map fst xs)
   \<Longrightarrow> (x, a) \<in> set xs \<Longrightarrow>
   map_of r x =
     Some (case map_of table x of
             Some e \<Rightarrow> ConsumerAction x (si_product_id e) (si_source_id e) a 1
           | None \<Rightarrow> ManufactureAction x a)"
proof (induction xs arbitrary: acc)
  case Nil
  then show ?case by simp
next
  case (Cons e xs)
  obtain k v where e: "e = (k, v)" by (cases e)
  show ?case
  proof (cases "x = k")
    case True
    with Cons.prems e have av: "a = v" by (auto simp: rev_image_eqI)
    from Cons.prems e True have notin: "x \<notin> fst ` set xs" by auto
    from Cons.prems(1) e True notin show ?thesis
      by (auto split: option.splits simp: update_conv' av dest!: gal_keep)
  next
    case False
    with Cons e show ?thesis by (auto split: option.splits)
  qed
qed

text \<open>
  With a side-table assigned from outside, the loop translates an id of the table into a
  replenishment action and every other id into a production-order action.
\<close>

lemma get_action_with_table:
  assumes "state_info w = Some table"
    and "distinct (map fst action_by_agent)" and "(x, a) \<in> set action_by_agent"
  shows "\<exists>r. get_action w action_by_agent = Some r
           \<and> map_of r x =
               Some (case map_of table x of
                       Some e \<Rightarrow> ConsumerAction x (si_product_id e) (si_source_id e) a 1
                     | None \<Rightarrow> ManufactureAction x a)"
proof -
  from gal_total obtain r where r: "get_action_loop (Some table) action_by_agent [] = Some r"
    by blast
  with gal_entry [OF r assms(2,3)] assms(1) show ?thesis
    by (simp add: get_action_def)
qed

text \<open>
  Without the attribute, every non-empty action map raises; only the empty map is
  translated.
\<close>

lemma get_action_without_table:
  "state_info w = None \<Longrightarrow> action_by_agent \<noteq> [] \<Longrightarrow> get_action w action_by_agent = None"
  by (cases action_by_agent) (auto simp: get_action_def)

text \<open>
  C7. The claim describes a side-table populated while the consumer-role state is built
  and a translation of every known agent id. The class never populates the table: on
  the wrapper as the class builds it, the action map \<open>{12: 0.5}\<close> for the consumer agent
  12 raises instead of giving the replenishment action.
\<close>

theorem get_action_unpopulated_side_table:
  "state_info world = None \<and> 12 \<in> a_id ` set (agent_list world)
   \<and> get_action world [(12, 0.5)] = None"
  by (simp add: get_action_def world_def consumer_agent_def)

end
